theory Spec2Isabelle
  imports Main "HOL-Library.Sublist"
begin

section \<open>The search scene (app/scenes/Search/Search.tsx)\<close>

subsection \<open>Data\<close>

text \<open>
  The object literal built in \<open>fetchResults\<close> and handed to \<open>documents.search\<close>. Its
  keys are those of the source; they carry the prefix \<open>sp_\<close> because the component has
  fields and getters of the same names. \<open>undefined\<close> is \<open>None\<close>.
\<close>

record SearchParams =
  sp_offset :: nat
  sp_limit :: nat
  sp_dateFilter :: "string option"
  sp_includeArchived :: bool
  sp_includeDrafts :: bool
  sp_collectionId :: "string option"
  sp_userId :: "string option"

text \<open>
  A \<open>URLSearchParams\<close> value is the ordered list of its name/value pairs; \<open>get\<close> returns
  the value of the first pair with the name, or \<open>null\<close>.
\<close>

type_synonym URLSearchParams = "(string \<times> string) list"

definition get :: "URLSearchParams \<Rightarrow> string \<Rightarrow> string option" where
  "get ps name = map_of ps name"

text \<open>
  The fields of the \<open>Search\<close> component (\<open>lastQuery\<close>, \<open>lastParams\<close>, \<open>query\<close>, \<open>params\<close>,
  \<open>offset\<close>, \<open>allowLoadMore\<close>, \<open>isLoading\<close>), followed by what the component does to its two
  collaborators: \<open>search_calls\<close> lists the calls of \<open>props.documents.search\<close> in the order
  they were issued, \<open>searches_added\<close> the queries given to \<open>props.searches.add\<close> (the fresh
  identifier and the timestamp of each entry come from the platform and are not recorded).
  \<open>lastParams\<close> is declared without an initial value, so it starts as \<open>undefined\<close>.
\<close>

record Search =
  lastQuery :: string
  lastParams :: "SearchParams option"
  query :: string
  params :: URLSearchParams
  offset :: nat
  allowLoadMore :: bool
  isLoading :: bool
  search_calls :: "(string \<times> SearchParams) list"
  searches_added :: "string list"

text \<open>
  The component as its field initialisers leave it. \<open>q\<close> is the decoded route term the
  initialiser of \<open>query\<close> computes.
\<close>

definition initial :: "string \<Rightarrow> Search" where
  "initial q =
     \<lparr>lastQuery = [], lastParams = None, query = q, params = [], offset = 0,
      allowLoadMore = True, isLoading = False, search_calls = [], searches_added = []\<rparr>"

text \<open>
  A component used in the examples below: for the query "a", a full first page of 25
  results was loaded and the second page came back short.
\<close>

definition loaded_page :: Search where
  "loaded_page =
     (initial ''a'')\<lparr>lastQuery := ''a'',
        lastParams := Some \<lparr>sp_offset = 25, sp_limit = 25, sp_dateFilter = None,
          sp_includeArchived = False, sp_includeDrafts = True, sp_collectionId = None,
          sp_userId = None\<rparr>,
        offset := 25, allowLoadMore := False\<rparr>"

subsection \<open>Getters\<close>

text \<open>\<open>id ? id : undefined\<close>: the empty string is falsy, so it reads as \<open>undefined\<close> too.\<close>

definition truthy :: "string option \<Rightarrow> string option" where
  "truthy v = (case v of None \<Rightarrow> None | Some x \<Rightarrow> if x = [] then None else Some x)"

definition includeArchived :: "Search \<Rightarrow> bool" where
  "includeArchived s = (get (params s) ''includeArchived'' = Some ''true'')"

definition collectionId :: "Search \<Rightarrow> string option" where
  "collectionId s = truthy (get (params s) ''collectionId'')"

definition userId :: "Search \<Rightarrow> string option" where
  "userId s = truthy (get (params s) ''userId'')"

definition dateFilter :: "Search \<Rightarrow> string option" where
  "dateFilter s = truthy (get (params s) ''dateFilter'')"

subsection \<open>fetchResults\<close>

text \<open>
  \<open>DEFAULT_PAGINATION_LIMIT\<close> is imported from \<open>~/stores/BaseStore\<close>, which is not among
  the sources; every function that reads it takes it as its first argument \<open>L\<close>.

  The parameter object of lines 197 to 205.
\<close>

definition fetchParams :: "nat \<Rightarrow> Search \<Rightarrow> SearchParams" where
  "fetchParams L s =
     \<lparr>sp_offset = offset s, sp_limit = L, sp_dateFilter = dateFilter s,
      sp_includeArchived = includeArchived s, sp_includeDrafts = True,
      sp_collectionId = collectionId s, sp_userId = userId s\<rparr>"

text \<open>
  \<open>fetchResults\<close> is an \<open>async\<close> function with one \<open>await\<close>. It runs in two parts: from
  the call up to the \<open>await\<close> (or to an earlier \<open>return\<close>), and from the settlement of the
  awaited promise to the end. \<open>Returned s\<close> says that the first part ended the function in
  state \<open>s\<close>; \<open>Awaiting s q p\<close> that it called \<open>documents.search(q, p)\<close> and is suspended in
  state \<open>s\<close>.
\<close>

datatype step = Returned Search | Awaiting Search string SearchParams

fun state_of :: "step \<Rightarrow> Search" where
  "state_of (Returned s) = s"
| "state_of (Awaiting s q p) = s"

text \<open>
  Lines 196 to 218 and 239 to 242. \<open>isEqual(params, this.lastParams)\<close> compares the new
  object with the recorded one key by key, and is false while \<open>lastParams\<close> is
  \<open>undefined\<close>.
\<close>

definition fetchResults_start :: "nat \<Rightarrow> Search \<Rightarrow> step" where
  "fetchResults_start L s =
     (if query s \<noteq> [] then
        (let p = fetchParams L s in
         if lastQuery s = query s \<and> lastParams s = Some p
         then Returned (s\<lparr>isLoading := False\<rparr>)
         else Awaiting
                (s\<lparr>isLoading := True, lastQuery := query s, lastParams := Some p,
                   search_calls := search_calls s @ [(query s, p)]\<rparr>)
                (query s) p)
      else Returned (s\<lparr>isLoading := False, lastQuery := query s\<rparr>))"

text \<open>
  Lines 218 to 238, from the settlement of the promise: \<open>Inr results\<close> when it resolved,
  \<open>Inl err\<close> when it rejected. The state \<open>s\<close> is the component when the function resumes.
  The first component of the result is the error \<open>fetchResults\<close> rethrows, if any.
\<close>

definition fetchResults_finish ::
    "nat \<Rightarrow> 'e + 'r list \<Rightarrow> Search \<Rightarrow> 'e option \<times> Search" where
  "fetchResults_finish L outcome s =
     (case outcome of
        Inr results \<Rightarrow>
          (let s1 = s\<lparr>searches_added := searches_added s @ [query s]\<rparr>;
               s2 = (if length results = 0 \<or> length results < L
                     then s1\<lparr>allowLoadMore := False\<rparr>
                     else s1\<lparr>offset := offset s1 + L\<rparr>)
           in (None, s2\<lparr>isLoading := False\<rparr>))
      | Inl err \<Rightarrow> (Some err, s\<lparr>lastQuery := [], isLoading := False\<rparr>))"

text \<open>
  The whole of \<open>fetchResults\<close> when nothing else runs while it is suspended: \<open>svc\<close> is the
  search service, answering the call with a result list or an error.
\<close>

definition fetchResults ::
    "nat \<Rightarrow> (string \<Rightarrow> SearchParams \<Rightarrow> 'e + 'r list) \<Rightarrow> Search \<Rightarrow> 'e option \<times> Search" where
  "fetchResults L svc s =
     (case fetchResults_start L s of
        Returned s' \<Rightarrow> (None, s')
      | Awaiting s' q p \<Rightarrow> fetchResults_finish L (svc q p) s')"

text \<open>Lines 186 to 192.\<close>

definition loadMoreResults ::
    "nat \<Rightarrow> (string \<Rightarrow> SearchParams \<Rightarrow> 'e + 'r list) \<Rightarrow> Search \<Rightarrow> 'e option \<times> Search" where
  "loadMoreResults L svc s =
     (if \<not> allowLoadMore s \<or> isLoading s then (None, s) else fetchResults L svc s)"

subsection \<open>Route and query-string changes\<close>

text \<open>
  Of the props, the route term (\<open>props.match.params.term\<close>, possibly \<open>undefined\<close>) and the
  query string (\<open>props.location.search\<close>).
\<close>

record Props =
  match_params_term :: "string option"
  location_search :: string

text \<open>
  \<open>parse\<close> stands for the constructor \<open>new URLSearchParams(string)\<close> of the platform and
  \<open>decode\<close> for \<open>decodeURIComponentSafe\<close> of \<open>~/utils/urls\<close>, which is not among the
  sources. The handlers call \<open>fetchResults\<close> without awaiting it, so each of them is the
  first part of \<open>fetchResults\<close> on the state it has prepared.
\<close>

definition handleQueryChange ::
    "nat \<Rightarrow> (string \<Rightarrow> URLSearchParams) \<Rightarrow> Props \<Rightarrow> Search \<Rightarrow> step" where
  "handleQueryChange L parse props s =
     fetchResults_start L
       (s\<lparr>params := parse (location_search props), offset := 0, allowLoadMore := True,
          isLoading := True\<rparr>)"

definition handleTermChange ::
    "nat \<Rightarrow> (string \<Rightarrow> string) \<Rightarrow> Props \<Rightarrow> Search \<Rightarrow> step" where
  "handleTermChange L decode props s =
     (let q = decode (case match_params_term props of None \<Rightarrow> [] | Some t \<Rightarrow> t) in
      fetchResults_start L
        (s\<lparr>query := (if q \<noteq> [] then q else []), offset := 0, allowLoadMore := True,
           isLoading := True\<rparr>))"

text \<open>
  \<open>componentDidUpdate\<close>, lines 77 to 85, up to the point where it returns: the
  continuations of the fetches it started run later.
\<close>

definition componentDidUpdate ::
    "nat \<Rightarrow> (string \<Rightarrow> URLSearchParams) \<Rightarrow> (string \<Rightarrow> string) \<Rightarrow> Props \<Rightarrow> Props \<Rightarrow> Search
      \<Rightarrow> Search" where
  "componentDidUpdate L parse decode prevProps props s =
     (let s1 = (if location_search prevProps \<noteq> location_search props
                then state_of (handleQueryChange L parse props s) else s);
          s2 = (if match_params_term prevProps \<noteq> match_params_term props
                then state_of (handleTermChange L decode props s1) else s1)
      in s2)"

section \<open>The shared document scene (app/scenes/Document/Shared.tsx)\<close>

subsection \<open>Data\<close>

text \<open>
  Modelled from the spec: the type \<open>NavigationNode\<close> of \<open>@shared/types\<close>, which is not
  among the sources, is the recursive structure \<open>{id, url, children: NavigationNode[]}\<close>.
  The selector of \<open>id\<close> is written \<open>id'\<close>. The source tests \<open>node.children\<close> before it
  loops over it; an array, empty or not, passes the test, and line 202 reads
  \<open>children.length\<close> without a test.
\<close>

datatype NavigationNode =
  NavigationNode (id': string) (url: string) (children: "NavigationNode list")

text \<open>Of the document model, the fields the scene reads: \<open>id\<close>, \<open>url\<close> and \<open>title\<close>.\<close>

record DocumentModel =
  document_id :: string
  document_url :: string
  document_title :: string

text \<open>The team of a response is only handed on to the theme and to the view.\<close>

typedecl PublicTeam

text \<open>The type \<open>Response\<close> of lines 33 to 37; an absent optional field is \<open>None\<close>.\<close>

record Response =
  document :: DocumentModel
  team :: "PublicTeam option"
  sharedTree :: "NavigationNode option"

subsection \<open>useDocumentId\<close>

text \<open>
  \<open>String.prototype.endsWith\<close> with one argument: the search string is no longer than
  the string, and the string's last characters, as many as the search string has, are
  the search string. A \<open>char\<close> stands for one code unit of the string.
\<close>

definition endsWith :: "string \<Rightarrow> string \<Rightarrow> bool" where
  "endsWith s searchString =
     (length searchString \<le> length s \<and>
      drop (length s - length searchString) s = searchString)"

text \<open>
  Lines 64 to 77. The local variable \<open>documentId\<close> that \<open>findInTree\<close> assigns is passed
  in and returned next to the boolean result. \<open>findInChildren\<close> is the \<open>for\<close> loop over
  \<open>node.children\<close>, followed by the \<open>return false\<close> of line 76.
\<close>

fun findInTree :: "string \<Rightarrow> NavigationNode \<Rightarrow> string option \<Rightarrow> bool \<times> string option"
  and findInChildren ::
    "string \<Rightarrow> NavigationNode list \<Rightarrow> string option \<Rightarrow> bool \<times> string option" where
  "findInTree documentSlug (NavigationNode i u cs) documentId =
     (if endsWith u documentSlug then (True, Some i)
      else findInChildren documentSlug cs documentId)"
| "findInChildren documentSlug [] documentId = (False, documentId)"
| "findInChildren documentSlug (child # rest) documentId =
     (case findInTree documentSlug child documentId of
        (True, documentId') \<Rightarrow> (True, documentId')
      | (False, documentId') \<Rightarrow> findInChildren documentSlug rest documentId')"

text \<open>
  Lines 61 to 84: \<open>documentId\<close> starts \<open>undefined\<close>, the tree is searched when
  \<open>response?.sharedTree\<close> is there, and \<open>documentId\<close> is returned.
\<close>

definition useDocumentId :: "string \<Rightarrow> Response option \<Rightarrow> string option" where
  "useDocumentId documentSlug response =
     (case response of
        None \<Rightarrow> None
      | Some r \<Rightarrow>
          (case sharedTree r of
             None \<Rightarrow> None
           | Some tree \<Rightarrow> snd (findInTree documentSlug tree None)))"

text \<open>
  The specification's wording of the same: the nodes of the tree in depth-first
  pre-order (a node, then its children's subtrees from first to last), and the \<open>id\<close> of
  the first of them whose \<open>url\<close> ends with the slug.
\<close>

fun preorder :: "NavigationNode \<Rightarrow> NavigationNode list" where
  "preorder (NavigationNode i u cs) = NavigationNode i u cs # concat (map preorder cs)"

definition resolve_spec :: "string \<Rightarrow> NavigationNode \<Rightarrow> string option" where
  "resolve_spec documentSlug tree =
     map_option id' (find (\<lambda>n. endsWith (url n) documentSlug) (preorder tree))"

subsection \<open>The scene\<close>

text \<open>
  Modelled from the spec: the error classes of \<open>~/utils/errors\<close>, which is not among
  the sources, are \<open>OfflineError\<close> and \<open>AuthorizationError\<close>, distinguishable error kinds;
  every other error is a generic one (here with its message). \<open>error instanceof C\<close> is
  \<open>error = C\<close>.
\<close>

datatype Error = OfflineError | AuthorizationError | OtherError string

text \<open>Of the capability set \<open>usePolicy\<close> returns, the two abilities the scene reads.\<close>

record Policy =
  update :: bool
  download :: bool

text \<open>The two pieces of state the fetch writes (lines 94 and 95), both empty at mount.\<close>

record Scene =
  response :: "Response option"
  error :: "Error option"

text \<open>
  Lines 137 to 146, from the settlement of \<open>documents.fetchWithSharedTree\<close>: a response
  is stored with \<open>setResponse\<close>, an error with \<open>setError\<close>. Neither setter touches the
  other piece of state. The effect runs at mount and again whenever the slug or the share
  changes.
\<close>

definition fetchData :: "Error + Response \<Rightarrow> Scene \<Rightarrow> Scene" where
  "fetchData outcome sc =
     (case outcome of Inr r \<Rightarrow> sc\<lparr>response := Some r\<rparr> | Inl err \<Rightarrow> sc\<lparr>error := Some err\<rparr>)"

text \<open>
  What the scene returns: one of the fallbacks, the loading screen, a redirect to a URL,
  or the read-only document in its print wrapper, with or without the sidebar.
\<close>

datatype Wrapper = ContainerEditor | ContainerEditorWithoutExport

datatype View =
  ErrorOffline | Login | Error404 | Loading | Redirect string
| SharedDocument Wrapper bool DocumentModel

text \<open>
  Of the props and the location: \<open>props.location.pathname\<close>, and the query string as the
  \<open>URLSearchParams\<close> value built from it.
\<close>

record SceneProps =
  pathname :: string
  searchParams :: URLSearchParams

text \<open>
  The browser's cookies, by name. \<open>setCookie\<close> of \<open>tiny-cookie\<close> stores a value under a
  name, replacing what was there.
\<close>

type_synonym Cookies = "string \<rightharpoonup> string"

definition setCookie :: "string \<Rightarrow> string \<Rightarrow> Cookies \<Rightarrow> Cookies" where
  "setCookie key v cookies = cookies(key \<mapsto> v)"

text \<open>Line 104: \<open>usePolicy(response?.document.id ?? "")\<close>, with the policy hook a parameter.\<close>

definition can :: "(string \<Rightarrow> Policy) \<Rightarrow> Scene \<Rightarrow> Policy" where
  "can usePolicy sc =
     usePolicy (case response sc of None \<Rightarrow> [] | Some r \<Rightarrow> document_id (document r))"

text \<open>Line 202: whether \<open>response.sharedTree?.children.length\<close> is truthy.\<close>

definition sidebar :: "Response \<Rightarrow> bool" where
  "sidebar r = (case sharedTree r of None \<Rightarrow> False | Some tree \<Rightarrow> length (children tree) \<noteq> 0)"

text \<open>
  Lines 150 to 231: the view returned and the cookies after the render.
\<close>

definition SharedDocumentScene ::
    "SceneProps \<Rightarrow> (string \<Rightarrow> Policy) \<Rightarrow> Scene \<Rightarrow> Cookies \<Rightarrow> View \<times> Cookies" where
  "SharedDocumentScene props usePolicy sc cookies =
     (case error sc of
        Some err \<Rightarrow>
          (if err = OfflineError then (ErrorOffline, cookies)
           else if err = AuthorizationError
           then (Login, setCookie ''postLoginRedirectPath'' (pathname props) cookies)
           else (Error404, cookies))
      | None \<Rightarrow>
          (case response sc of
             None \<Rightarrow> (Loading, cookies)
           | Some r \<Rightarrow>
               if get (searchParams props) ''edit'' = Some ''true'' \<and> update (can usePolicy sc)
               then (Redirect (document_url (document r)), cookies)
               else (SharedDocument
                       (if download (can usePolicy sc) then ContainerEditor
                        else ContainerEditorWithoutExport)
                       (sidebar r) (document r),
                     cookies)))"

fun isRedirect :: "View \<Rightarrow> bool" where
  "isRedirect (Redirect u) = True"
| "isRedirect v = False"

definition mounted :: Scene where
  "mounted = \<lparr>response = None, error = None\<rparr>"

text \<open>A response used in the examples below.\<close>

definition doc1 :: Response where
  "doc1 =
     \<lparr>document = \<lparr>document_id = ''d1'', document_url = ''/doc/d1'', document_title = ''T''\<rparr>,
      team = None, sharedTree = None\<rparr>"

section \<open>Properties of the search scene\<close>

lemma fetchResults_start_cases:
  "fetchResults_start L s =
     (if query s = [] then Returned (s\<lparr>isLoading := False, lastQuery := []\<rparr>)
      else if lastQuery s = query s \<and> lastParams s = Some (fetchParams L s)
      then Returned (s\<lparr>isLoading := False\<rparr>)
      else Awaiting
             (s\<lparr>isLoading := True, lastQuery := query s,
                lastParams := Some (fetchParams L s),
                search_calls := search_calls s @ [(query s, fetchParams L s)]\<rparr>)
             (query s) (fetchParams L s))"
  by (simp add: fetchResults_start_def Let_def)

lemma fetchResults_start_fresh:
  "query s \<noteq> [] \<Longrightarrow> \<not> (lastQuery s = query s \<and> lastParams s = Some (fetchParams L s)) \<Longrightarrow>
   fetchResults_start L s =
     Awaiting
       (s\<lparr>isLoading := True, lastQuery := query s, lastParams := Some (fetchParams L s),
          search_calls := search_calls s @ [(query s, fetchParams L s)]\<rparr>)
       (query s) (fetchParams L s)"
  by (simp add: fetchResults_start_cases)

lemma fetchResults_start_seen:
  "query s \<noteq> [] \<Longrightarrow> lastQuery s = query s \<Longrightarrow> lastParams s = Some (fetchParams L s) \<Longrightarrow>
   fetchResults_start L s = Returned (s\<lparr>isLoading := False\<rparr>)"
  by (simp add: fetchResults_start_cases)

lemma fetchResults_finish_Inr:
  "fetchResults_finish L (Inr results) s =
     (None,
      if length results = 0 \<or> length results < L
      then s\<lparr>searches_added := searches_added s @ [query s], allowLoadMore := False,
             isLoading := False\<rparr>
      else s\<lparr>searches_added := searches_added s @ [query s], offset := offset s + L,
             isLoading := False\<rparr>)"
  by (simp add: fetchResults_finish_def Let_def)

lemma fetchResults_finish_Inl:
  "fetchResults_finish L (Inl err) s = (Some err, s\<lparr>lastQuery := [], isLoading := False\<rparr>)"
  by (simp add: fetchResults_finish_def)

lemma fetchParams_cong:
  "params s' = params s \<Longrightarrow> offset s' = offset s \<Longrightarrow> fetchParams L s' = fetchParams L s"
  by (simp add: fetchParams_def dateFilter_def includeArchived_def collectionId_def
      userId_def)

lemma sp_offset_fetchParams: "sp_offset (fetchParams L s) = offset s"
  by (simp add: fetchParams_def)

text \<open>
  What the first part of \<open>fetchResults\<close> never touches: the query, the URL parameters,
  the offset and \<open>allowLoadMore\<close>; and it only ever appends to the log of calls.
\<close>

lemma fetchResults_start_keeps:
  "query (state_of (fetchResults_start L s)) = query s \<and>
   params (state_of (fetchResults_start L s)) = params s \<and>
   offset (state_of (fetchResults_start L s)) = offset s \<and>
   allowLoadMore (state_of (fetchResults_start L s)) = allowLoadMore s"
  by (simp add: fetchResults_start_cases)

lemma fetchResults_start_calls:
  "search_calls (state_of (fetchResults_start L s)) =
     search_calls s @
       (case fetchResults_start L s of Returned s' \<Rightarrow> [] | Awaiting s' q p \<Rightarrow> [(q, p)])"
  by (simp add: fetchResults_start_cases)

lemma fetchResults_start_Awaiting:
  "fetchResults_start L s = Awaiting s' q p \<Longrightarrow>
     q = query s \<and> p = fetchParams L s \<and> query s \<noteq> [] \<and> isLoading s' \<and>
     offset s' = offset s \<and> allowLoadMore s' = allowLoadMore s"
  by (auto simp: fetchResults_start_cases split: if_splits)

subsection \<open>Pagination after a successful fetch\<close>

text \<open>
  The continuation after a resolved call, whatever happened to the component while the
  call was in flight: a full page advances the offset by the page size and leaves
  \<open>allowLoadMore\<close> alone, a short page clears \<open>allowLoadMore\<close> and leaves the offset alone.
\<close>

lemma fetchResults_finish_page:
  assumes "0 < L"
  shows "L \<le> length results \<Longrightarrow>
           fetchResults_finish L (Inr results) s =
             (None, s\<lparr>searches_added := searches_added s @ [query s],
                       offset := offset s + L, isLoading := False\<rparr>)"
    and "length results < L \<Longrightarrow>
           fetchResults_finish L (Inr results) s =
             (None, s\<lparr>searches_added := searches_added s @ [query s],
                       allowLoadMore := False, isLoading := False\<rparr>)"
  using assms by (auto simp: fetchResults_finish_Inr)

text \<open>
  C1. A fetch with a non-empty query that is sent to the search service (it is not a
  repetition of the last one) and succeeds with \<open>results\<close>: if there are at least
  \<open>L\<close> results, \<open>allowLoadMore\<close> keeps its value (so it stays true) and \<open>offset\<close> grows by
  exactly \<open>L\<close>; if there are fewer (none included), \<open>allowLoadMore\<close> becomes false and
  \<open>offset\<close> keeps its value. Nothing is thrown. \<open>L\<close> is the page size, a positive
  constant. The same holds of the continuation alone, relative to the component \<open>t\<close> it
  resumes in, whatever was done to the component while the request was in flight.
\<close>

theorem fetchResults_pagination:
  assumes "0 < L"
    and "query s \<noteq> []"
    and "\<not> (lastQuery s = query s \<and> lastParams s = Some (fetchParams L s))"
    and "(svc :: string \<Rightarrow> SearchParams \<Rightarrow> 'e + 'r list) (query s) (fetchParams L s) =
           Inr results"
  shows "fst (fetchResults L svc s) = None \<and>
         (L \<le> length results \<longrightarrow>
            allowLoadMore (snd (fetchResults L svc s)) = allowLoadMore s \<and>
            offset (snd (fetchResults L svc s)) = offset s + L) \<and>
         (length results < L \<longrightarrow>
            \<not> allowLoadMore (snd (fetchResults L svc s)) \<and>
            offset (snd (fetchResults L svc s)) = offset s) \<and>
         (L \<le> length results \<longrightarrow>
            allowLoadMore (snd (fetchResults_finish L (Inr results :: 'e + 'r list) t)) =
              allowLoadMore t \<and>
            offset (snd (fetchResults_finish L (Inr results :: 'e + 'r list) t)) =
              offset t + L) \<and>
         (length results < L \<longrightarrow>
            \<not> allowLoadMore (snd (fetchResults_finish L (Inr results :: 'e + 'r list) t)) \<and>
            offset (snd (fetchResults_finish L (Inr results :: 'e + 'r list) t)) = offset t)"
proof -
  have "fetchResults L svc s =
      fetchResults_finish L (Inr results :: 'e + 'r list)
        (s\<lparr>isLoading := True, lastQuery := query s, lastParams := Some (fetchParams L s),
           search_calls := search_calls s @ [(query s, fetchParams L s)]\<rparr>)"
    by (simp add: fetchResults_def fetchResults_start_fresh [OF assms(2,3)] assms(4))
  with assms(1) show ?thesis
    by (auto simp: fetchResults_finish_Inr)
qed

text \<open>
  The property at two inputs: page size 10 with ten results and with three results,
  from the initial component with the query "design doc".
\<close>

theorem fetchResults_pagination_witness:
  "fst (fetchResults 10 (\<lambda>q p. (Inr (replicate 10 ()) :: unit + unit list))
          (initial ''design doc'')) = None \<and>
   allowLoadMore (snd (fetchResults 10 (\<lambda>q p. (Inr (replicate 10 ()) :: unit + unit list))
          (initial ''design doc''))) \<and>
   offset (snd (fetchResults 10 (\<lambda>q p. (Inr (replicate 10 ()) :: unit + unit list))
          (initial ''design doc''))) = 10 \<and>
   \<not> allowLoadMore (snd (fetchResults 10 (\<lambda>q p. (Inr (replicate 3 ()) :: unit + unit list))
          (initial ''design doc''))) \<and>
   offset (snd (fetchResults 10 (\<lambda>q p. (Inr (replicate 3 ()) :: unit + unit list))
          (initial ''design doc''))) = 0"
  using
    fetchResults_pagination [of 10 "initial ''design doc''"
      "\<lambda>q p. (Inr (replicate 10 ()) :: unit + unit list)" "replicate 10 ()"]
    fetchResults_pagination [of 10 "initial ''design doc''"
      "\<lambda>q p. (Inr (replicate 3 ()) :: unit + unit list)" "replicate 3 ()"]
  by (simp add: initial_def)

subsection \<open>The repetition guard\<close>

text \<open>
  A second call while the first is still waiting for the service, with the component
  untouched in between, is recognised as a repetition: it returns at once and clears
  \<open>isLoading\<close>.
\<close>

lemma fetchResults_start_twice:
  assumes "fetchResults_start L s = Awaiting s1 q p"
  shows "fetchResults_start L s1 = Returned (s1\<lparr>isLoading := False\<rparr>)"
proof -
  from assms have q: "query s \<noteq> []"
    and s1: "s1 = s\<lparr>isLoading := True, lastQuery := query s,
                    lastParams := Some (fetchParams L s),
                    search_calls := search_calls s @ [(query s, fetchParams L s)]\<rparr>"
    by (auto simp: fetchResults_start_cases split: if_splits)
  have "fetchParams L s1 = fetchParams L s"
    by (rule fetchParams_cong) (simp_all add: s1)
  then show ?thesis
    using q by (simp add: fetchResults_start_cases [of L s1]) (simp add: s1)
qed

text \<open>
  C2, as the code has it. Two consecutive calls of \<open>fetchResults\<close> with a non-empty
  query, the first of which threw nothing (it was itself a repetition, or its request
  succeeded), and the second of which finds the same query and builds the same
  parameters (offset, limit, dateFilter, includeArchived, includeDrafts, collectionId,
  userId): the second call sends nothing to the search service, throws nothing, and
  changes the component in nothing but \<open>isLoading\<close>, which it sets to false; so \<open>offset\<close>,
  \<open>allowLoadMore\<close>, \<open>lastQuery\<close> and \<open>lastParams\<close> keep their values. The same holds
  of a second call made while the request of the first is still in flight.
\<close>

theorem fetchResults_repeated:
  assumes "query s \<noteq> []"
    and "fetchResults L svc1 s = (None, s1)"
    and "query s1 = query s"
    and "fetchParams L s1 = fetchParams L s"
  shows "fetchResults L svc2 s1 = (None, s1\<lparr>isLoading := False\<rparr>) \<and>
         search_calls (snd (fetchResults L svc2 s1)) = search_calls s1 \<and>
         offset (snd (fetchResults L svc2 s1)) = offset s1 \<and>
         allowLoadMore (snd (fetchResults L svc2 s1)) = allowLoadMore s1 \<and>
         lastQuery (snd (fetchResults L svc2 s1)) = lastQuery s1 \<and>
         lastParams (snd (fetchResults L svc2 s1)) = lastParams s1 \<and>
         \<not> isLoading (snd (fetchResults L svc2 s1)) \<and>
         (case fetchResults_start L s of
            Returned s' \<Rightarrow> True
          | Awaiting s' q p \<Rightarrow> fetchResults_start L s' = Returned (s'\<lparr>isLoading := False\<rparr>))"
proof -
  have last: "lastQuery s1 = query s \<and> lastParams s1 = Some (fetchParams L s)"
  proof (cases "lastQuery s = query s \<and> lastParams s = Some (fetchParams L s)")
    case True
    with assms(1,2) show ?thesis
      by (auto simp: fetchResults_def fetchResults_start_cases)
  next
    case False
    with assms(1,2) show ?thesis
      by (cases "svc1 (query s) (fetchParams L s)")
        (auto simp: fetchResults_def fetchResults_start_cases fetchResults_finish_Inr
          fetchResults_finish_Inl split: if_splits)
  qed
  with assms(1,3,4) have "fetchResults_start L s1 = Returned (s1\<lparr>isLoading := False\<rparr>)"
    by (simp add: fetchResults_start_cases)
  moreover have "(case fetchResults_start L s of
            Returned s' \<Rightarrow> True
          | Awaiting s' q p \<Rightarrow> fetchResults_start L s' = Returned (s'\<lparr>isLoading := False\<rparr>))"
    by (simp add: fetchResults_start_twice split: step.splits)
  ultimately show ?thesis
    by (simp add: fetchResults_def)
qed

text \<open>
  The property at an input: page size 10, three results for "design doc", and the same
  fetch again.
\<close>

theorem fetchResults_repeated_witness:
  "fetchResults 10 (\<lambda>q p. (Inr [()] :: unit + unit list))
     (snd (fetchResults 10 (\<lambda>q p. (Inr (replicate 3 ()) :: unit + unit list))
        (initial ''design doc''))) =
   (None,
    (snd (fetchResults 10 (\<lambda>q p. (Inr (replicate 3 ()) :: unit + unit list))
        (initial ''design doc'')))\<lparr>isLoading := False\<rparr>) \<and>
   search_calls (snd (fetchResults 10 (\<lambda>q p. (Inr [()] :: unit + unit list))
     (snd (fetchResults 10 (\<lambda>q p. (Inr (replicate 3 ()) :: unit + unit list))
        (initial ''design doc''))))) =
   [(''design doc'', fetchParams 10 (initial ''design doc''))]"
proof -
  let ?svc1 = "\<lambda>q p. (Inr (replicate 3 ()) :: unit + unit list)"
  let ?svc2 = "\<lambda>q p. (Inr [()] :: unit + unit list)"
  let ?s = "initial ''design doc''"
  let ?s1 = "snd (fetchResults 10 ?svc1 ?s)"
  have s1: "fetchResults 10 ?svc1 ?s =
      (None, ?s\<lparr>isLoading := False, lastQuery := ''design doc'',
                 lastParams := Some (fetchParams 10 ?s),
                 search_calls := [(''design doc'', fetchParams 10 ?s)],
                 searches_added := [''design doc''], allowLoadMore := False\<rparr>)"
    by (simp add: fetchResults_def fetchResults_start_cases fetchResults_finish_Inr
        initial_def)
  have p: "fetchParams 10 ?s1 = fetchParams 10 ?s"
    by (rule fetchParams_cong) (simp_all add: s1)
  have "query ?s \<noteq> []" and "fetchResults 10 ?svc1 ?s = (None, ?s1)" and "query ?s1 = query ?s"
    by (simp_all add: s1) (simp_all add: initial_def)
  from fetchResults_repeated [OF this p, of ?svc2] show ?thesis
    by (simp add: s1)
qed

text \<open>
  C2 as it is worded holds for any two consecutive calls with the same query and
  parameters. It fails when the request of the first call failed: the component then
  forgets the query it recorded, and the second call, for the same non-empty query and
  the same parameters, is sent to the search service. Here the first request for "a"
  fails; the second call finds the same query and parameters and its request is the
  second entry of the log of calls.
\<close>

theorem fetchResults_repeated_counterexample:
  "query (snd (fetchResults 25 (\<lambda>q p. (Inl () :: unit + unit list)) (initial ''a''))) =
     query (initial ''a'') \<and>
   query (initial ''a'') \<noteq> [] \<and>
   fetchParams 25 (snd (fetchResults 25 (\<lambda>q p. (Inl () :: unit + unit list)) (initial ''a''))) =
     fetchParams 25 (initial ''a'') \<and>
   search_calls (snd (fetchResults 25 (\<lambda>q p. (Inl () :: unit + unit list)) (initial ''a''))) =
     [(''a'', fetchParams 25 (initial ''a''))] \<and>
   search_calls
     (snd (fetchResults 25 (\<lambda>q p. (Inr [] :: unit + unit list))
        (snd (fetchResults 25 (\<lambda>q p. (Inl () :: unit + unit list)) (initial ''a''))))) =
     [(''a'', fetchParams 25 (initial ''a'')), (''a'', fetchParams 25 (initial ''a''))]"
proof -
  let ?s = "initial ''a''"
  let ?p = "fetchParams 25 ?s"
  let ?s1 = "?s\<lparr>isLoading := True, lastQuery := query ?s, lastParams := Some ?p,
                 search_calls := search_calls ?s @ [(query ?s, ?p)]\<rparr>"
  let ?s2 = "?s1\<lparr>lastQuery := [], isLoading := False\<rparr>"
  have q: "query ?s = ''a''" and c: "search_calls ?s = []" and l: "lastQuery ?s = []"
    by (simp_all add: initial_def)
  have "fetchResults_start 25 ?s = Awaiting ?s1 (query ?s) ?p"
    by (rule fetchResults_start_fresh) (simp_all add: q l)
  then have r1: "fetchResults 25 (\<lambda>q p. (Inl () :: unit + unit list)) ?s = (Some (), ?s2)"
    by (simp only: fetchResults_def step.case fetchResults_finish_Inl)
  have p2: "fetchParams 25 ?s2 = ?p"
    by (rule fetchParams_cong) simp_all
  have q2: "query ?s2 = ''a''" and c2: "search_calls ?s2 = [(''a'', ?p)]"
    and l2: "lastQuery ?s2 = []"
    by (simp_all add: q c)
  have "fetchResults_start 25 ?s2 =
      Awaiting
        (?s2\<lparr>isLoading := True, lastQuery := query ?s2, lastParams := Some (fetchParams 25 ?s2),
              search_calls := search_calls ?s2 @ [(query ?s2, fetchParams 25 ?s2)]\<rparr>)
        (query ?s2) (fetchParams 25 ?s2)"
    by (rule fetchResults_start_fresh) (simp_all add: q)
  then have r2: "search_calls (snd (fetchResults 25 (\<lambda>q p. (Inr [] :: unit + unit list)) ?s2)) =
      search_calls ?s2 @ [(query ?s2, fetchParams 25 ?s2)]"
    by (simp only: fetchResults_def step.case fetchResults_finish_Inr) simp
  show ?thesis
    unfolding r1 snd_conv r2 p2 q2 c2 by (simp add: q)
qed

subsection \<open>Failure of the search service\<close>

text \<open>
  C4. When the request fails with \<open>err\<close>, \<open>fetchResults\<close> sets \<open>lastQuery\<close> to the empty
  string and \<open>isLoading\<close> to false and rethrows \<open>err\<close>, touching nothing else, whatever the
  component was when the failure arrived. For a whole call with a non-empty query whose
  request fails: \<open>err\<close> reaches the caller, \<open>lastQuery\<close> is empty, \<open>isLoading\<close> is false,
  \<open>offset\<close> and \<open>allowLoadMore\<close> have the values they had before the call, and the same fetch
  tried again is sent to the search service with the same query and parameters.
\<close>

theorem fetchResults_failure:
  assumes "query s \<noteq> []"
    and "\<not> (lastQuery s = query s \<and> lastParams s = Some (fetchParams L s))"
    and "(svc :: string \<Rightarrow> SearchParams \<Rightarrow> 'e + 'r list) (query s) (fetchParams L s) =
           Inl err"
  shows "fetchResults_finish L (Inl err :: 'e + 'r list) t =
           (Some err, t\<lparr>lastQuery := [], isLoading := False\<rparr>) \<and>
         fst (fetchResults L svc s) = Some err \<and>
         lastQuery (snd (fetchResults L svc s)) = [] \<and>
         \<not> isLoading (snd (fetchResults L svc s)) \<and>
         offset (snd (fetchResults L svc s)) = offset s \<and>
         allowLoadMore (snd (fetchResults L svc s)) = allowLoadMore s \<and>
         (case fetchResults_start L (snd (fetchResults L svc s)) of
            Returned s' \<Rightarrow> False
          | Awaiting s' q p \<Rightarrow> q = query s \<and> p = fetchParams L s)"
proof -
  let ?s1 = "s\<lparr>isLoading := True, lastQuery := query s,
                lastParams := Some (fetchParams L s),
                search_calls := search_calls s @ [(query s, fetchParams L s)]\<rparr>"
  let ?s2 = "?s1\<lparr>lastQuery := [], isLoading := False\<rparr>"
  have r: "fetchResults L svc s = (Some err, ?s2)"
    by (simp add: fetchResults_def fetchResults_start_fresh [OF assms(1,2)] assms(3)
        fetchResults_finish_Inl)
  have p: "fetchParams L ?s2 = fetchParams L s"
    by (rule fetchParams_cong) simp_all
  have "fetchResults_start L ?s2 =
      Awaiting
        (?s2\<lparr>isLoading := True, lastQuery := query ?s2,
              lastParams := Some (fetchParams L ?s2),
              search_calls := search_calls ?s2 @ [(query ?s2, fetchParams L ?s2)]\<rparr>)
        (query ?s2) (fetchParams L ?s2)"
    by (rule fetchResults_start_fresh) (use assms(1) in simp_all)
  then have "(case fetchResults_start L ?s2 of
            Returned s' \<Rightarrow> False
          | Awaiting s' q p \<Rightarrow> q = query s \<and> p = fetchParams L s)"
    by (simp only: step.case p) simp
  then show ?thesis
    by (simp add: r fetchResults_finish_Inl)
qed

theorem fetchResults_failure_witness:
  "fst (fetchResults 25 (\<lambda>q p. (Inl ''boom'' :: string + unit list)) (initial ''a'')) =
     Some ''boom'' \<and>
   lastQuery (snd (fetchResults 25 (\<lambda>q p. (Inl ''boom'' :: string + unit list))
     (initial ''a''))) = [] \<and>
   \<not> isLoading (snd (fetchResults 25 (\<lambda>q p. (Inl ''boom'' :: string + unit list))
     (initial ''a''))) \<and>
   offset (snd (fetchResults 25 (\<lambda>q p. (Inl ''boom'' :: string + unit list))
     (initial ''a''))) = 0 \<and>
   allowLoadMore (snd (fetchResults 25 (\<lambda>q p. (Inl ''boom'' :: string + unit list))
     (initial ''a'')))"
proof -
  let ?s = "initial ''a''"
  let ?svc = "\<lambda>q p. (Inl ''boom'' :: string + unit list)"
  have h1: "query ?s \<noteq> []"
    and h2: "\<not> (lastQuery ?s = query ?s \<and> lastParams ?s = Some (fetchParams 25 ?s))"
    and h3: "?svc (query ?s) (fetchParams 25 ?s) = Inl ''boom''"
    by (simp_all add: initial_def)
  have v: "offset ?s = 0" "allowLoadMore ?s"
    by (simp_all add: initial_def)
  from fetchResults_failure [of ?s 25 ?svc "''boom''" ?s, OF h1 h2 h3] show ?thesis
    by (simp only: v) simp
qed

subsection \<open>The empty query\<close>

text \<open>
  C8. With the empty query, \<open>fetchResults\<close> does not call the search service, sets
  \<open>isLoading\<close> to false, records the empty string as the last query, and leaves \<open>offset\<close>
  and \<open>allowLoadMore\<close> as they are; it throws nothing.
\<close>

theorem fetchResults_empty_query:
  assumes "query s = []"
  shows "fetchResults_start L s = Returned (s\<lparr>isLoading := False, lastQuery := []\<rparr>) \<and>
         fetchResults L svc s = (None, s\<lparr>isLoading := False, lastQuery := []\<rparr>) \<and>
         search_calls (snd (fetchResults L svc s)) = search_calls s \<and>
         \<not> isLoading (snd (fetchResults L svc s)) \<and>
         lastQuery (snd (fetchResults L svc s)) = [] \<and>
         offset (snd (fetchResults L svc s)) = offset s \<and>
         allowLoadMore (snd (fetchResults L svc s)) = allowLoadMore s"
  using assms by (simp add: fetchResults_def fetchResults_start_cases)

theorem fetchResults_empty_query_witness:
  "fetchResults 25 (\<lambda>q p. (Inr [()] :: unit + unit list))
     ((initial [])\<lparr>lastQuery := ''old'', isLoading := True, offset := 50\<rparr>) =
   (None, (initial [])\<lparr>lastQuery := [], isLoading := False, offset := 50\<rparr>) \<and>
   search_calls (snd (fetchResults 25 (\<lambda>q p. (Inr [()] :: unit + unit list))
     ((initial [])\<lparr>lastQuery := ''old'', isLoading := True, offset := 50\<rparr>))) = []"
  using fetchResults_empty_query
    [of "(initial [])\<lparr>lastQuery := ''old'', isLoading := True, offset := 50\<rparr>" 25
      "\<lambda>q p. (Inr [()] :: unit + unit list)"]
  by (simp add: initial_def)

subsection \<open>Route and query-string changes\<close>

text \<open>
  Both handlers leave the component with offset 0 and \<open>allowLoadMore\<close> true when they
  return, and every request they send carries offset 0.
\<close>

lemma handleQueryChange_state:
  "offset (state_of (handleQueryChange L parse props s)) = 0 \<and>
   allowLoadMore (state_of (handleQueryChange L parse props s)) \<and>
   query (state_of (handleQueryChange L parse props s)) = query s"
  by (simp add: handleQueryChange_def fetchResults_start_keeps)

lemma handleTermChange_state:
  "offset (state_of (handleTermChange L decode props s)) = 0 \<and>
   allowLoadMore (state_of (handleTermChange L decode props s))"
  by (simp add: handleTermChange_def Let_def fetchResults_start_keeps)

lemma fetchResults_start_issued:
  "\<exists>new. search_calls (state_of (fetchResults_start L s)) = search_calls s @ new \<and>
         list_all (\<lambda>c. sp_offset (snd c) = offset s) new"
  by (simp add: fetchResults_start_cases sp_offset_fetchParams)

lemma handleQueryChange_issued:
  "\<exists>new. search_calls (state_of (handleQueryChange L parse props s)) = search_calls s @ new \<and>
         list_all (\<lambda>c. sp_offset (snd c) = 0) new"
  using fetchResults_start_issued
    [where L = L and s = "s\<lparr>params := parse (location_search props), offset := 0, allowLoadMore := True,
             isLoading := True\<rparr>"]
  by (simp add: handleQueryChange_def)

lemma handleTermChange_issued:
  "\<exists>new. search_calls (state_of (handleTermChange L decode props s)) = search_calls s @ new \<and>
         list_all (\<lambda>c. sp_offset (snd c) = 0) new"
proof -
  let ?q = "decode (case match_params_term props of None \<Rightarrow> [] | Some t \<Rightarrow> t)"
  show ?thesis
    using fetchResults_start_issued
      [where L = L and s = "s\<lparr>query := (if ?q \<noteq> [] then ?q else []), offset := 0, allowLoadMore := True,
               isLoading := True\<rparr>"]
    by (simp add: handleTermChange_def Let_def)
qed

lemma componentDidUpdate_issued:
  "\<exists>new. search_calls (componentDidUpdate L parse decode prevProps props s) =
           search_calls s @ new \<and>
         list_all (\<lambda>c. sp_offset (snd c) = 0) new"
proof -
  let ?s1 = "if location_search prevProps \<noteq> location_search props
             then state_of (handleQueryChange L parse props s) else s"
  let ?s2 = "if match_params_term prevProps \<noteq> match_params_term props
             then state_of (handleTermChange L decode props ?s1) else ?s1"
  obtain new1 where 1: "search_calls ?s1 = search_calls s @ new1"
      "list_all (\<lambda>c. sp_offset (snd c) = 0) new1"
    using handleQueryChange_issued [where L = L and parse = parse and props = props and s = s] by (cases "location_search prevProps \<noteq> location_search props") auto
  obtain new2 where 2: "search_calls ?s2 = search_calls ?s1 @ new2"
      "list_all (\<lambda>c. sp_offset (snd c) = 0) new2"
    using handleTermChange_issued [where L = L and decode = decode and props = props and s = ?s1]
    by (cases "match_params_term prevProps \<noteq> match_params_term props") auto
  have "componentDidUpdate L parse decode prevProps props s = ?s2"
    by (simp add: componentDidUpdate_def Let_def)
  with 1 2 have "search_calls (componentDidUpdate L parse decode prevProps props s) =
      search_calls s @ (new1 @ new2) \<and> list_all (\<lambda>c. sp_offset (snd c) = 0) (new1 @ new2)"
    by simp
  then show ?thesis by blast
qed

lemma reset_step:
  "offset s = 0 \<Longrightarrow> allowLoadMore s \<Longrightarrow>
   (case fetchResults_start L s of
      Returned s' \<Rightarrow> offset s' = 0 \<and> allowLoadMore s'
    | Awaiting s' q p \<Rightarrow> sp_offset p = 0 \<and> offset s' = 0 \<and> allowLoadMore s' \<and> isLoading s')"
  by (simp add: fetchResults_start_cases sp_offset_fetchParams)

lemma handleTermChange_eq:
  "handleTermChange L decode props s =
     fetchResults_start L
       (s\<lparr>query := decode (case match_params_term props of None \<Rightarrow> [] | Some t \<Rightarrow> t),
          offset := 0, allowLoadMore := True, isLoading := True\<rparr>)"
proof -
  have "(if q \<noteq> [] then q else []) = q" for q :: string
    by simp
  then show ?thesis
    by (simp only: handleTermChange_def Let_def)
qed

text \<open>
  C7. A query-string change and a route term change are handled by
  \<open>handleQueryChange\<close> and \<open>handleTermChange\<close>. Each of them hands \<open>fetchResults\<close> a
  component whose \<open>offset\<close> is 0, whose \<open>allowLoadMore\<close> is true and whose \<open>isLoading\<close> is
  true; so the request it sends, if it sends one, asks for offset 0, and the component
  has offset 0 and \<open>allowLoadMore\<close> true while the request is in flight and when the
  handler returns without one. For \<open>componentDidUpdate\<close>, which detects the changes: if
  the query string or the term changed, the component ends with offset 0 and
  \<open>allowLoadMore\<close> true, the requests sent before are kept, and every request sent
  during the update asks for offset 0.
\<close>

theorem changes_reset_pagination:
  "handleQueryChange L parse props s =
     fetchResults_start L
       (s\<lparr>params := parse (location_search props), offset := 0, allowLoadMore := True,
          isLoading := True\<rparr>) \<and>
   (case handleQueryChange L parse props s of
      Returned s' \<Rightarrow> offset s' = 0 \<and> allowLoadMore s'
    | Awaiting s' q p \<Rightarrow> sp_offset p = 0 \<and> offset s' = 0 \<and> allowLoadMore s' \<and> isLoading s') \<and>
   (\<exists>q. handleTermChange L decode props s =
     fetchResults_start L
       (s\<lparr>query := q, offset := 0, allowLoadMore := True, isLoading := True\<rparr>)) \<and>
   (case handleTermChange L decode props s of
      Returned s' \<Rightarrow> offset s' = 0 \<and> allowLoadMore s'
    | Awaiting s' q p \<Rightarrow> sp_offset p = 0 \<and> offset s' = 0 \<and> allowLoadMore s' \<and> isLoading s') \<and>
   (location_search prevProps \<noteq> location_search props \<or>
    match_params_term prevProps \<noteq> match_params_term props \<longrightarrow>
      offset (componentDidUpdate L parse decode prevProps props s) = 0 \<and>
      allowLoadMore (componentDidUpdate L parse decode prevProps props s)) \<and>
   take (length (search_calls s))
     (search_calls (componentDidUpdate L parse decode prevProps props s)) = search_calls s \<and>
   list_all (\<lambda>c. sp_offset (snd c) = 0)
     (drop (length (search_calls s))
        (search_calls (componentDidUpdate L parse decode prevProps props s)))"
proof -
  let ?s0 = "s\<lparr>params := parse (location_search props), offset := 0, allowLoadMore := True,
               isLoading := True\<rparr>"
  let ?q = "decode (case match_params_term props of None \<Rightarrow> [] | Some t \<Rightarrow> t)"
  let ?t0 = "s\<lparr>query := ?q, offset := 0, allowLoadMore := True, isLoading := True\<rparr>"
  have a: "handleQueryChange L parse props s = fetchResults_start L ?s0"
    by (simp add: handleQueryChange_def)
  have b: "handleTermChange L decode props s = fetchResults_start L ?t0"
    by (rule handleTermChange_eq)
  have a': "(case handleQueryChange L parse props s of
      Returned s' \<Rightarrow> offset s' = 0 \<and> allowLoadMore s'
    | Awaiting s' q p \<Rightarrow> sp_offset p = 0 \<and> offset s' = 0 \<and> allowLoadMore s' \<and> isLoading s')"
    unfolding a by (rule reset_step) simp_all
  have b': "(case handleTermChange L decode props s of
      Returned s' \<Rightarrow> offset s' = 0 \<and> allowLoadMore s'
    | Awaiting s' q p \<Rightarrow> sp_offset p = 0 \<and> offset s' = 0 \<and> allowLoadMore s' \<and> isLoading s')"
    unfolding b by (rule reset_step) simp_all
  have c: "location_search prevProps \<noteq> location_search props \<or>
      match_params_term prevProps \<noteq> match_params_term props \<longrightarrow>
      offset (componentDidUpdate L parse decode prevProps props s) = 0 \<and>
      allowLoadMore (componentDidUpdate L parse decode prevProps props s)"
    by (simp add: componentDidUpdate_def Let_def handleQueryChange_state
        handleTermChange_state)
  obtain new where d: "search_calls (componentDidUpdate L parse decode prevProps props s) =
      search_calls s @ new" "list_all (\<lambda>c. sp_offset (snd c) = 0) new"
    using componentDidUpdate_issued by blast
  from b have b'': "\<exists>q. handleTermChange L decode props s =
     fetchResults_start L
       (s\<lparr>query := q, offset := 0, allowLoadMore := True, isLoading := True\<rparr>)"
    by blast
  show ?thesis
    using a a' b' b'' c d(2) by (simp only: d(1)) simp
qed

text \<open>
  The property at an input: two pages for "a" are loaded and no more are allowed; then
  the collection filter is added to the query string. The update sends one
  request, for offset 0 and the collection.
\<close>

theorem changes_reset_pagination_witness:
  "offset (componentDidUpdate 25 (\<lambda>x. [(''collectionId'', ''c1'')]) (\<lambda>x. x)
     \<lparr>match_params_term = Some ''a'', location_search = []\<rparr>
     \<lparr>match_params_term = Some ''a'', location_search = ''?collectionId=c1''\<rparr>
     loaded_page) = 0 \<and>
   allowLoadMore (componentDidUpdate 25 (\<lambda>x. [(''collectionId'', ''c1'')]) (\<lambda>x. x)
     \<lparr>match_params_term = Some ''a'', location_search = []\<rparr>
     \<lparr>match_params_term = Some ''a'', location_search = ''?collectionId=c1''\<rparr>
     loaded_page) \<and>
   search_calls (componentDidUpdate 25 (\<lambda>x. [(''collectionId'', ''c1'')]) (\<lambda>x. x)
     \<lparr>match_params_term = Some ''a'', location_search = []\<rparr>
     \<lparr>match_params_term = Some ''a'', location_search = ''?collectionId=c1''\<rparr>
     loaded_page) =
     [(''a'', \<lparr>sp_offset = 0, sp_limit = 25, sp_dateFilter = None,
              sp_includeArchived = False, sp_includeDrafts = True,
              sp_collectionId = Some ''c1'', sp_userId = None\<rparr>)]"
proof -
  let ?prev = "\<lparr>match_params_term = Some ''a'', location_search = []\<rparr>"
  let ?props = "\<lparr>match_params_term = Some ''a'', location_search = ''?collectionId=c1''\<rparr>"
  let ?parse = "\<lambda>x :: string. [(''collectionId'', ''c1'')]"
  let ?decode = "\<lambda>x :: string. x"
  have changed: "location_search ?prev \<noteq> location_search ?props \<or>
      match_params_term ?prev \<noteq> match_params_term ?props"
    by simp
  have calls: "search_calls (componentDidUpdate 25 ?parse ?decode ?prev ?props loaded_page) =
     [(''a'', \<lparr>sp_offset = 0, sp_limit = 25, sp_dateFilter = None,
              sp_includeArchived = False, sp_includeDrafts = True,
              sp_collectionId = Some ''c1'', sp_userId = None\<rparr>)]"
    by (simp add: componentDidUpdate_def handleQueryChange_def fetchResults_start_def
        fetchParams_def dateFilter_def includeArchived_def collectionId_def userId_def
        truthy_def get_def loaded_page_def initial_def Let_def)
  from changes_reset_pagination
    [where L = 25 and parse = ?parse and decode = ?decode and prevProps = ?prev
      and props = ?props and s = loaded_page]
    changed calls
  show ?thesis
    by blast
qed

section \<open>Properties of the shared document scene\<close>

subsection \<open>Resolution of the document identifier\<close>

lemma find_app:
  "find P (xs @ ys) = (case find P xs of None \<Rightarrow> find P ys | Some x \<Rightarrow> Some x)"
  by (induction xs) simp_all


text \<open>
  The search of the source and the specification's wording agree, for the node and for
  the loop over a list of children.
\<close>

lemma find_tree:
  "findInTree slug t d = (case resolve_spec slug t of None \<Rightarrow> (False, d) | Some i \<Rightarrow> (True, Some i))"
  and "findInChildren slug ts d =
     (case find (\<lambda>n. endsWith (url n) slug) (concat (map preorder ts)) of
        None \<Rightarrow> (False, d) | Some n \<Rightarrow> (True, Some (id' n)))"
proof (induction slug t d and slug ts d rule: findInTree_findInChildren.induct)
  case (1 documentSlug i u cs documentId)
  then show ?case by (simp add: resolve_spec_def split: option.splits)
next
  case (2 documentSlug documentId)
  then show ?case by simp
next
  case (3 documentSlug child rest documentId)
  show ?case
  proof (cases "find (\<lambda>n. endsWith (url n) documentSlug) (preorder child)")
    case None
    with 3(1) have t: "findInTree documentSlug child documentId = (False, documentId)"
      by (simp add: resolve_spec_def)
    from 3(2) [OF t [symmetric]] None t show ?thesis
      by (simp add: find_app)
  next
    case (Some n)
    with 3(1) show ?thesis
      by (simp add: resolve_spec_def find_app)
  qed
qed

lemma endsWith_suffix: "endsWith s t = suffix t s"
proof
  assume "endsWith s t"
  then have "s = take (length s - length t) s @ t"
    by (metis append_take_drop_id endsWith_def)
  then show "suffix t s"
    by (rule suffixI)
next
  assume "suffix t s"
  then obtain p where "s = p @ t" ..
  then show "endsWith s t"
    by (simp add: endsWith_def)
qed

lemma endsWith_Nil: "endsWith s []"
  by (simp add: endsWith_def)


text \<open>
  C3. \<open>useDocumentId\<close> is the depth-first, pre-order search: without a response or
  without a tree it returns nothing; with a tree it returns the \<open>id\<close> of the first node, in
  depth-first pre-order, whose \<open>url\<close> ends with the slug, and nothing exactly when no
  node's \<open>url\<close> ends with the slug. For the tree with root "a" at "/x" and its one child
  "b" at "/y/slug", the slug "slug" resolves to "b".
\<close>

theorem useDocumentId_resolves:
  "useDocumentId documentSlug None = None \<and>
   useDocumentId documentSlug (Some (r\<lparr>sharedTree := None\<rparr>)) = None \<and>
   useDocumentId documentSlug (Some (r\<lparr>sharedTree := Some tree\<rparr>)) =
     resolve_spec documentSlug tree \<and>
   ((resolve_spec documentSlug tree = None) =
      (filter (\<lambda>n. endsWith (url n) documentSlug) (preorder tree) = [])) \<and>
   useDocumentId ''slug''
     (Some (r\<lparr>sharedTree := Some (NavigationNode ''a'' ''/x''
        [NavigationNode ''b'' ''/y/slug'' []])\<rparr>)) = Some ''b''"
proof -
  have 1: "useDocumentId slug (Some (r\<lparr>sharedTree := Some t\<rparr>)) = resolve_spec slug t"
    for t slug
    by (simp add: useDocumentId_def find_tree(1) split: option.splits)
  have 2: "(find P xs = None) = (filter P xs = [])" for P and xs :: "NavigationNode list"
    by (induction xs) simp_all
  have 3: "resolve_spec ''slug''
      (NavigationNode ''a'' ''/x'' [NavigationNode ''b'' ''/y/slug'' []]) = Some ''b''"
    by (simp add: resolve_spec_def endsWith_def)
  show ?thesis
    unfolding 1 3 by (simp add: useDocumentId_def) (simp add: resolve_spec_def 2)
qed

text \<open>
  The test of a node is a raw suffix test: a \<open>url\<close> ends with the slug exactly when it
  is some string followed by the slug, whatever that string ends with.
\<close>

lemma endsWith_append: "endsWith u documentSlug = (\<exists>p. u = p @ documentSlug)"
  by (simp add: endsWith_suffix suffix_def)

text \<open>
  C10. Resolution matches by raw string suffix: it returns the \<open>id\<close> of the first node,
  in depth-first pre-order, whose \<open>url\<close> is some string followed by the slug, wherever in
  the tree that node is and whatever the string ends with, and nothing exactly when the
  tree has no such node. So the slug "oc" matches the url "/doc" across the path
  segment: a root at "/doc" resolves "oc" to the root, and a root at "/x" with a child at
  "/doc" resolves "oc" to the child. Every \<open>url\<close> ends with the empty slug, so with the
  empty slug every tree resolves to the \<open>id\<close> of its root.
\<close>

theorem useDocumentId_raw_suffix:
  "useDocumentId documentSlug (Some (r\<lparr>sharedTree := Some tree\<rparr>)) =
     map_option id' (find (\<lambda>n. \<exists>p. url n = p @ documentSlug) (preorder tree)) \<and>
   ((useDocumentId documentSlug (Some (r\<lparr>sharedTree := Some tree\<rparr>)) = None) =
      (filter (\<lambda>n. \<exists>p. url n = p @ documentSlug) (preorder tree) = [])) \<and>
   endsWith u documentSlug = (\<exists>p. u = p @ documentSlug) \<and>
   endsWith ''/doc'' ''oc'' \<and>
   useDocumentId ''oc'' (Some (r\<lparr>sharedTree := Some (NavigationNode ''a'' ''/doc'' [])\<rparr>)) =
     Some ''a'' \<and>
   useDocumentId ''oc''
     (Some (r\<lparr>sharedTree := Some (NavigationNode ''a'' ''/x''
        [NavigationNode ''b'' ''/doc'' []])\<rparr>)) = Some ''b'' \<and>
   endsWith u [] \<and>
   useDocumentId [] (Some (r\<lparr>sharedTree := Some tree\<rparr>)) = Some (id' tree)"
proof -
  have 1: "useDocumentId slug (Some (r\<lparr>sharedTree := Some t\<rparr>)) =
      map_option id' (find (\<lambda>n. \<exists>p. url n = p @ slug) (preorder t))" for slug t
    by (simp add: useDocumentId_def find_tree(1) resolve_spec_def endsWith_append
        split: option.splits)
  have 2: "(find P xs = None) = (filter P xs = [])" for P and xs :: "NavigationNode list"
    by (induction xs) simp_all
  have 3: "useDocumentId ''oc''
      (Some (r\<lparr>sharedTree := Some (NavigationNode ''a'' ''/doc'' [])\<rparr>)) = Some ''a''"
    by (simp add: useDocumentId_def endsWith_def)
  have 4: "useDocumentId ''oc''
      (Some (r\<lparr>sharedTree := Some (NavigationNode ''a'' ''/x''
        [NavigationNode ''b'' ''/doc'' []])\<rparr>)) = Some ''b''"
    by (simp add: useDocumentId_def endsWith_def)
  have 5: "useDocumentId [] (Some (r\<lparr>sharedTree := Some tree\<rparr>)) = Some (id' tree)"
    by (cases tree) (simp add: useDocumentId_def endsWith_Nil)
  have 6: "endsWith ''/doc'' ''oc''"
    by (simp add: endsWith_def)
  have 7: "(useDocumentId documentSlug (Some (r\<lparr>sharedTree := Some tree\<rparr>)) = None) =
      (filter (\<lambda>n. \<exists>p. url n = p @ documentSlug) (preorder tree) = [])"
    by (simp only: 1 2 option.map_disc_iff)
  from 1 [of documentSlug tree] 7 endsWith_append [of u documentSlug] 6 3 4
    endsWith_Nil [of u] 5
  show ?thesis
    by (intro conjI)
qed

subsection \<open>Classification of a fetch error\<close>

text \<open>
  C5. With an error recorded, the scene returns exactly one of three different views,
  tested in this order: the offline fallback for an \<open>OfflineError\<close>, the login prompt for
  an \<open>AuthorizationError\<close>, and the not-found fallback for any other error.
\<close>

theorem error_classification:
  "fst (SharedDocumentScene props usePolicy (sc\<lparr>error := Some OfflineError\<rparr>) cookies) =
     ErrorOffline \<and>
   fst (SharedDocumentScene props usePolicy (sc\<lparr>error := Some AuthorizationError\<rparr>) cookies) =
     Login \<and>
   fst (SharedDocumentScene props usePolicy (sc\<lparr>error := Some (OtherError msg)\<rparr>) cookies) =
     Error404 \<and>
   fst (SharedDocumentScene props usePolicy (sc\<lparr>error := Some err\<rparr>) cookies) =
     (case err of OfflineError \<Rightarrow> ErrorOffline | AuthorizationError \<Rightarrow> Login
      | OtherError m \<Rightarrow> Error404) \<and>
   distinct [ErrorOffline, Login, Error404]"
  by (simp add: SharedDocumentScene_def split: Error.splits)


text \<open>
  C9. After a fetch that failed with an \<open>AuthorizationError\<close>, the render returns the
  login prompt and has stored the pathname of the location it was rendered for under the
  cookie \<open>postLoginRedirectPath\<close>, whatever the cookies and the scene were before.
\<close>

theorem authorization_redirect_cookie:
  "SharedDocumentScene props usePolicy (fetchData (Inl AuthorizationError) sc) cookies =
     (Login, cookies(''postLoginRedirectPath'' \<mapsto> pathname props)) \<and>
   snd (SharedDocumentScene props usePolicy (fetchData (Inl AuthorizationError) sc) cookies)
     ''postLoginRedirectPath'' = Some (pathname props)"
  by (simp add: SharedDocumentScene_def fetchData_def setCookie_def)


subsection \<open>The redirect of an editor\<close>

text \<open>
  What the render returns, read off the two pieces of state: the error, when there is
  one, is looked at before the response.
\<close>

lemma SharedDocumentScene_view:
  "isRedirect (fst (SharedDocumentScene props usePolicy sc cookies)) =
     (error sc = None \<and> response sc \<noteq> None \<and>
      get (searchParams props) ''edit'' = Some ''true'' \<and> update (can usePolicy sc)) \<and>
   (error sc = None \<longrightarrow> response sc = Some r \<longrightarrow>
      fst (SharedDocumentScene props usePolicy sc cookies) =
        (if get (searchParams props) ''edit'' = Some ''true'' \<and> update (can usePolicy sc)
         then Redirect (document_url (document r))
         else SharedDocument
                (if download (can usePolicy sc) then ContainerEditor
                 else ContainerEditorWithoutExport)
                (sidebar r) (document r))) \<and>
   (error sc = None \<longrightarrow> response sc = None \<longrightarrow>
      fst (SharedDocumentScene props usePolicy sc cookies) = Loading) \<and>
   (error sc \<noteq> None \<longrightarrow>
      fst (SharedDocumentScene props usePolicy sc cookies) = ErrorOffline \<or>
      fst (SharedDocumentScene props usePolicy sc cookies) = Login \<or>
      fst (SharedDocumentScene props usePolicy sc cookies) = Error404)"
  by (auto simp: SharedDocumentScene_def split: option.splits)

text \<open>
  As long as the scene has fetched at most once since it was mounted, the redirect is
  returned exactly when the response is loaded, \<open>edit\<close> is "true" and \<open>update\<close> is
  granted, and it leads to the document's own URL.
\<close>

lemma redirect_first_fetch:
  assumes "sc = mounted \<or> sc = fetchData outcome mounted"
  shows "isRedirect (fst (SharedDocumentScene props usePolicy sc cookies)) =
           (response sc \<noteq> None \<and> get (searchParams props) ''edit'' = Some ''true'' \<and>
            update (can usePolicy sc))"
proof -
  from assms have "response sc = None \<or> error sc = None"
    by (auto simp: mounted_def fetchData_def split: sum.splits)
  then show ?thesis
    by (auto simp: SharedDocumentScene_def split: option.splits)
qed

lemma redirect_loaded:
  "fst (SharedDocumentScene \<lparr>pathname = ''/s/x'', searchParams = [(''edit'', ''true'')]\<rparr>
      (\<lambda>i. \<lparr>update = (i = ''d1''), download = False\<rparr>) (fetchData (Inr doc1) mounted)
      Map.empty) = Redirect ''/doc/d1''"
  by (simp add: SharedDocumentScene_def fetchData_def mounted_def doc1_def can_def get_def)

text \<open>
  C6. The redirect to the document's own URL should be returned exactly when the fetch
  response is loaded, the \<open>edit\<close> parameter is "true" and the capability set grants
  \<open>update\<close>. The scene misses a case: an error once recorded is never cleared. Here the
  first fetch fails with an \<open>OfflineError\<close>; the slug changes and the second fetch
  succeeds with the document "d1", so its response is loaded; \<open>edit\<close> is "true" and
  \<open>update\<close> is granted. All three conditions hold, yet the scene returns the offline
  fallback and not the redirect.
\<close>

theorem edit_redirect_after_failure:
  "response (fetchData (Inr doc1) (fetchData (Inl OfflineError) mounted)) = Some doc1 \<and>
   get [(''edit'', ''true'')] ''edit'' = Some ''true'' \<and>
   update (can (\<lambda>i. \<lparr>update = True, download = True\<rparr>)
     (fetchData (Inr doc1) (fetchData (Inl OfflineError) mounted))) \<and>
   fst (SharedDocumentScene \<lparr>pathname = ''/s/x'', searchParams = [(''edit'', ''true'')]\<rparr>
      (\<lambda>i. \<lparr>update = True, download = True\<rparr>)
      (fetchData (Inr doc1) (fetchData (Inl OfflineError) mounted)) Map.empty) =
     ErrorOffline \<and>
   \<not> isRedirect
     (fst (SharedDocumentScene \<lparr>pathname = ''/s/x'', searchParams = [(''edit'', ''true'')]\<rparr>
        (\<lambda>i. \<lparr>update = True, download = True\<rparr>)
        (fetchData (Inr doc1) (fetchData (Inl OfflineError) mounted)) Map.empty))"
  by (simp add: SharedDocumentScene_def fetchData_def mounted_def can_def get_def)

end
